theory Spec2Isabelle
  imports Complex_Main
begin

section \<open>Frequency-domain modelling routines of python\_models\<close>

text \<open>
  The development embeds the numerical core of three scripts:
  \<^verbatim>\<open>classical_controller.py\<close> (polynomial transfer functions and Bode data),
  \<^verbatim>\<open>modern_contoller.py\<close> (state-space frequency response and output feedback) and
  \<^verbatim>\<open>multi_sas_attenuation.py\<close> (closed-form isolator models and their cascades).

  Conventions. A one-dimensional numpy array is a list, a two-dimensional one a value of
  type \<open>matrix\<close> (shape plus rows). Python floats are the real numbers and Python complex
  numbers are the complex numbers: all arithmetic is exact, rounding is not modelled.
  A Python exception is a value \<open>Inl e\<close> of a sum type. Keyword arguments with defaults
  are ordinary arguments; the defaults are recorded where the function is defined.
\<close>

subsection \<open>Polynomial helpers of numpy used by the transfer-function algebra\<close>

text \<open>
  \<^verbatim>\<open>np.trim_zeros(c, 'f')\<close> strips the leading zeros of a sequence.
\<close>

definition trim_zeros_f :: "real list \<Rightarrow> real list" where
  "trim_zeros_f c = dropWhile (\<lambda>x. x = 0) c"

text \<open>
  \<^verbatim>\<open>np.poly1d(c)\<close> stores the coefficients without leading zeros, and \<open>[0]\<close> when
  nothing is left.
\<close>

definition poly1d :: "real list \<Rightarrow> real list" where
  "poly1d c = (let t = trim_zeros_f c in if t = [] then [0] else t)"

text \<open>
  \<^verbatim>\<open>np.convolve(a, v)\<close> in its default mode \<open>full\<close>: entry \<open>n\<close> of the result is the
  sum of \<open>a[m] * v[n - m]\<close> over the indices where both factors exist; the result has
  \<open>len(a) + len(v) - 1\<close> entries. It is only called on non-empty sequences here.
\<close>

definition convolve :: "real list \<Rightarrow> real list \<Rightarrow> real list" where
  "convolve a v =
     map (\<lambda>n. sum_list (map (\<lambda>m. if m \<le> n \<and> n - m < length v
                                   then a ! m * v ! (n - m) else 0)
                           [0..<length a]))
         [0..<length a + length v - 1]"

text \<open>
  \<^verbatim>\<open>np.polymul(a1, a2)\<close> wraps both operands in \<open>poly1d\<close> and convolves them.
\<close>

definition polymul :: "real list \<Rightarrow> real list \<Rightarrow> real list" where
  "polymul a1 a2 = convolve (poly1d a1) (poly1d a2)"

text \<open>
  \<^verbatim>\<open>np.polyadd(a1, a2)\<close> pads the shorter operand with leading zeros and adds
  element-wise; with \<open>diff = len(a2) - len(a1)\<close> the three branches are those of numpy.
\<close>

definition polyadd :: "real list \<Rightarrow> real list \<Rightarrow> real list" where
  "polyadd a1 a2 =
     (if length a2 = length a1 then map2 (+) a1 a2
      else if length a2 > length a1
           then map2 (+) (replicate (length a2 - length a1) 0 @ a1) a2
      else map2 (+) a1 (replicate (length a1 - length a2) 0 @ a2))"

subsection \<open>Transfer-function algebra (classical\_controller.py)\<close>

text \<open>
  \<^verbatim>\<open>tf_series(num1, den1, num2, den2)\<close> returns the pair of products.
\<close>

definition tf_series ::
  "real list \<Rightarrow> real list \<Rightarrow> real list \<Rightarrow> real list \<Rightarrow> real list \<times> real list" where
  "tf_series num1 den1 num2 den2 = (polymul num1 num2, polymul den1 den2)"

text \<open>
  \<^verbatim>\<open>tf_feedback(num_ol, den_ol)\<close>: closed loop \<open>L / (1 + L)\<close> under unity feedback.
\<close>

definition tf_feedback :: "real list \<Rightarrow> real list \<Rightarrow> real list \<times> real list" where
  "tf_feedback num_ol den_ol =
     (let num_cl = num_ol;
          den_cl = polyadd den_ol num_ol
      in (num_cl, den_cl))"

subsection \<open>Bode data (classical\_controller.py)\<close>

text \<open>
  \<^verbatim>\<open>np.polyval(p, x)\<close> is Horner's rule: \<open>y = 0; for pv in p: y = y * x + pv\<close>.
\<close>

definition polyval :: "real list \<Rightarrow> complex \<Rightarrow> complex" where
  "polyval p x = foldl (\<lambda>y pv. y * x + complex_of_real pv) 0 p"

text \<open>
  \<^verbatim>\<open>scipy.signal.freqs(b, a, worN=w)\<close> with an array \<open>w\<close>: \<open>s = 1j * w\<close> and
  \<open>h = polyval(b, s) / polyval(a, s)\<close>, element by element. (Where the denominator is
  exactly zero numpy yields \<open>inf\<close> or \<open>nan\<close>; HOL's division yields 0 there.)
\<close>

definition freqs :: "real list \<Rightarrow> real list \<Rightarrow> real list \<Rightarrow> complex list" where
  "freqs b a w =
     (let s = map (\<lambda>wi. \<i> * complex_of_real wi) w
      in map2 (/) (map (polyval b) s) (map (polyval a) s))"

text \<open>
  \<^verbatim>\<open>np.angle(z)\<close> is \<open>arctan2(z.imag, z.real)\<close>, the angle in \<open>(-\<pi>, \<pi>]\<close>, and 0 at 0.
\<close>

definition arctan2 :: "real \<Rightarrow> real \<Rightarrow> real" where
  "arctan2 y x =
     (if 0 < x then arctan (y / x)
      else if x < 0 then (if 0 \<le> y then arctan (y / x) + pi else arctan (y / x) - pi)
      else if 0 < y then pi / 2
      else if y < 0 then - (pi / 2)
      else 0)"

definition angle :: "complex \<Rightarrow> real" where
  "angle z = arctan2 (Im z) (Re z)"

text \<open>
  \<^verbatim>\<open>np.unwrap(p)\<close> with the default period \<open>2\<pi>\<close>. \<open>diff\<close> is \<^verbatim>\<open>np.diff\<close>, \<open>np_mod\<close> is
  \<^verbatim>\<open>np.mod\<close> on floats (the result has the sign of the divisor), \<open>ddmod\<close> maps a jump into
  \<open>[-\<pi>, \<pi>]\<close>, \<open>ph_correct\<close> is the correction of one jump (none below \<open>\<pi>\<close>) and the
  corrections are accumulated by \<^verbatim>\<open>cumsum\<close> and added to all entries but the first.
\<close>

definition diff :: "real list \<Rightarrow> real list" where
  "diff p = map2 (\<lambda>a b. b - a) p (tl p)"

definition np_mod :: "real \<Rightarrow> real \<Rightarrow> real" where
  "np_mod x y = x - y * real_of_int \<lfloor>x / y\<rfloor>"

definition ddmod :: "real \<Rightarrow> real" where
  "ddmod dd =
     (let interval_high = 2 * pi / 2;
          interval_low = - interval_high;
          m = np_mod (dd - interval_low) (2 * pi) + interval_low
      in if m = interval_low \<and> 0 < dd then interval_high else m)"

definition ph_correct :: "real \<Rightarrow> real" where
  "ph_correct dd = (if \<bar>dd\<bar> < 2 * pi / 2 then 0 else ddmod dd - dd)"

fun cumsum_from :: "real \<Rightarrow> real list \<Rightarrow> real list" where
  "cumsum_from acc [] = []"
| "cumsum_from acc (x # xs) = (acc + x) # cumsum_from (acc + x) xs"

definition cumsum :: "real list \<Rightarrow> real list" where
  "cumsum xs = cumsum_from 0 xs"

definition unwrap :: "real list \<Rightarrow> real list" where
  "unwrap p =
     (case p of
        [] \<Rightarrow> []
      | x # xs \<Rightarrow> x # map2 (+) xs (cumsum (map ph_correct (diff p))))"

text \<open>
  \<^verbatim>\<open>bode_mag_phase(num, den, w)\<close>: magnitude in decibels and unwrapped phase in degrees
  of the response \<open>num(jw) / den(jw)\<close> on the grid.
\<close>

definition bode_mag_phase :: "real list \<Rightarrow> real list \<Rightarrow> real list \<Rightarrow> real list \<times> real list" where
  "bode_mag_phase num den w =
     (let h = freqs num den w;
          mag_db = map (\<lambda>z. 20 * log 10 (cmod z)) h;
          ph_deg = map (\<lambda>a. a * 180 / pi) (unwrap (map angle h))
      in (mag_db, ph_deg))"

subsection \<open>Isolator models (multi\_sas\_attenuation.py)\<close>

text \<open>
  Each model takes the grid \<open>w\<close> of angular frequencies and returns one complex value per
  grid point; \<open>num\<close> and \<open>den\<close> are computed for the whole grid and divided element-wise.
  Where a denominator is exactly zero numpy yields \<open>inf\<close> or \<open>nan\<close>; HOL's division yields 0.

  \<^verbatim>\<open>H_ip_basic(w, f0=0.1, beta=0.07, phi=1e-4)\<close>, the inverted pendulum before
  percussion clearance.
\<close>

definition H_ip_basic :: "real list \<Rightarrow> real \<Rightarrow> real \<Rightarrow> real \<Rightarrow> complex list" where
  "H_ip_basic w f0 beta phi =
     (let w0 = 2 * pi * f0;
          num = map (\<lambda>wi. complex_of_real (w0 ^ 2) * (1 + \<i> * complex_of_real phi)
                          + complex_of_real (beta * wi ^ 2)) w;
          den = map (\<lambda>wi. complex_of_real (w0 ^ 2) * (1 + \<i> * complex_of_real phi)
                          - complex_of_real (wi ^ 2)) w
      in map2 (/) num den)"

text \<open>
  \<^verbatim>\<open>H_ip_countermass(w, f0=0.1, gamma=0.01, phi=1e-4)\<close>, the inverted pendulum after
  counter-mass tuning.
\<close>

definition H_ip_countermass :: "real list \<Rightarrow> real \<Rightarrow> real \<Rightarrow> real \<Rightarrow> complex list" where
  "H_ip_countermass w f0 gamma phi =
     (let w0 = 2 * pi * f0;
          num = map (\<lambda>wi. complex_of_real (w0 ^ 2) * (1 + \<i> * complex_of_real phi)
                          + complex_of_real (gamma * wi ^ 2)) w;
          den = map (\<lambda>wi. complex_of_real (w0 ^ 2) * (1 + \<i> * complex_of_real phi)
                          - complex_of_real (wi ^ 2)) w
      in map2 (/) num den)"

text \<open>
  \<^verbatim>\<open>H_gas_single(w, f0=0.3, M=350.0, m=110.0, phi=1e-3, gamma=0.05)\<close>, one GAS filter.
\<close>

definition H_gas_single ::
  "real list \<Rightarrow> real \<Rightarrow> real \<Rightarrow> real \<Rightarrow> real \<Rightarrow> real \<Rightarrow> complex list" where
  "H_gas_single w f0 M m phi gamma =
     (let w0 = 2 * pi * f0;
          num = map (\<lambda>wi. complex_of_real (w0 ^ 2) * (1 + \<i> * complex_of_real phi)
                          + complex_of_real ((m / M) * wi ^ 2)) w;
          den = map (\<lambda>wi. complex_of_real (w0 ^ 2) * (1 + \<i> * complex_of_real phi)
                          - complex_of_real (wi ^ 2)
                          + \<i> * complex_of_real (gamma / M) * complex_of_real wi) w
      in map2 (/) num den)"

text \<open>
  \<^verbatim>\<open>np.ones_like(w, dtype=complex)\<close> and the in-place product \<open>H *= ...\<close> of two arrays of
  the grid's length.
\<close>

definition ones_like :: "real list \<Rightarrow> complex list" where
  "ones_like w = replicate (length w) 1"

definition imul :: "complex list \<Rightarrow> complex list \<Rightarrow> complex list" where
  "imul H G = map2 (*) H G"

text \<open>
  \<^verbatim>\<open>H_gas_cascade(w, f0_list, M=350.0, m=11.0, phi=1e-3, gamma=0.05)\<close>: the loop
  \<open>for f0 in f0_list: H *= H_gas_single(...)\<close> starting from all ones.
\<close>

definition H_gas_cascade ::
  "real list \<Rightarrow> real list \<Rightarrow> real \<Rightarrow> real \<Rightarrow> real \<Rightarrow> real \<Rightarrow> complex list" where
  "H_gas_cascade w f0_list M m phi gamma =
     foldl (\<lambda>H f0. imul H (H_gas_single w f0 M m phi gamma)) (ones_like w) f0_list"

text \<open>
  \<^verbatim>\<open>H_pend_single(w, f0=0.5, Q=50.0)\<close>, the horizontal pendulum; \<open>num\<close> is a scalar.
\<close>

definition H_pend_single :: "real list \<Rightarrow> real \<Rightarrow> real \<Rightarrow> complex list" where
  "H_pend_single w f0 Q =
     (let w0 = 2 * pi * f0;
          num = complex_of_real (w0 ^ 2);
          den = map (\<lambda>wi. complex_of_real (w0 ^ 2) - complex_of_real (wi ^ 2)
                          + \<i> * complex_of_real wi * complex_of_real w0 / complex_of_real Q) w
      in map (\<lambda>d. num / d) den)"

text \<open>
  \<^verbatim>\<open>H_pend_cascade(w, f0_list, Q=50.0)\<close>.
\<close>

definition H_pend_cascade :: "real list \<Rightarrow> real list \<Rightarrow> real \<Rightarrow> complex list" where
  "H_pend_cascade w f0_list Q =
     foldl (\<lambda>H f0. imul H (H_pend_single w f0 Q)) (ones_like w) f0_list"

subsection \<open>Matrices and the numpy operations on them\<close>

text \<open>
  The exceptions of the matrix code. \<open>DimensionError\<close> is the \<^verbatim>\<open>ValueError\<close> that numpy and
  scipy raise for operands of inconsistent shapes (a failed broadcast, mismatched inner
  dimensions of \<^verbatim>\<open>@\<close>, a non-square argument of \<^verbatim>\<open>la.inv\<close>); \<open>LinAlgError\<close> is scipy's
  error for a singular matrix; \<open>IndexError\<close> is raised by an index outside the array.
\<close>

datatype error = DimensionError | LinAlgError | IndexError

text \<open>
  A two-dimensional array: its shape and its rows. An array built by numpy satisfies
  \<open>is_matrix\<close>.
\<close>

datatype 'a matrix = Matrix (nrows: nat) (ncols: nat) (elems: "'a list list")

definition is_matrix :: "'a matrix \<Rightarrow> bool" where
  "is_matrix M = (length (elems M) = nrows M \<and> list_all (\<lambda>r. length r = ncols M) (elems M))"

text \<open>
  \<^verbatim>\<open>np.zeros((r, c))\<close>, \<^verbatim>\<open>np.eye(n)\<close>, the promotion of a real array to a complex one in
  mixed arithmetic, and the product \<open>c * M\<close> of a scalar with an array.
\<close>

definition zeros :: "nat \<Rightarrow> nat \<Rightarrow> 'a::zero matrix" where
  "zeros r c = Matrix r c (replicate r (replicate c 0))"

definition eye :: "nat \<Rightarrow> 'a::zero_neq_one matrix" where
  "eye n = Matrix n n (map (\<lambda>i. map (\<lambda>j. if i = j then 1 else 0) [0..<n]) [0..<n])"

definition cmat :: "real matrix \<Rightarrow> complex matrix" where
  "cmat M = Matrix (nrows M) (ncols M) (map (map complex_of_real) (elems M))"

definition smul :: "'a::times \<Rightarrow> 'a matrix \<Rightarrow> 'a matrix" where
  "smul c M = Matrix (nrows M) (ncols M) (map (map (\<lambda>x. c * x)) (elems M))"

text \<open>
  The element \<open>M[i, j]\<close> for indices that are not negative.
\<close>

definition getitem :: "'a matrix \<Rightarrow> nat \<Rightarrow> nat \<Rightarrow> error + 'a" where
  "getitem M i j =
     (if i < nrows M \<and> j < ncols M then Inr (elems M ! i ! j) else Inl IndexError)"

text \<open>
  Element-wise binary operations broadcast: two extents are compatible when they are equal
  or one of them is 1, and an axis of extent 1 is repeated to the common extent.
\<close>

definition bdim :: "nat \<Rightarrow> nat \<Rightarrow> error + nat" where
  "bdim a b = (if a = b then Inr a else if a = 1 then Inr b else if b = 1 then Inr a
               else Inl DimensionError)"

definition stretch :: "nat \<Rightarrow> 'b list \<Rightarrow> 'b list" where
  "stretch n xs = (case xs of [x] \<Rightarrow> replicate n x | _ \<Rightarrow> xs)"

definition broadcast_to :: "nat \<Rightarrow> nat \<Rightarrow> 'a matrix \<Rightarrow> 'a list list" where
  "broadcast_to r c M = stretch r (map (stretch c) (elems M))"

definition ewise :: "('a \<Rightarrow> 'a \<Rightarrow> 'a) \<Rightarrow> 'a matrix \<Rightarrow> 'a matrix \<Rightarrow> error + 'a matrix" where
  "ewise f X Y =
     (case bdim (nrows X) (nrows Y) of
        Inl e \<Rightarrow> Inl e
      | Inr r \<Rightarrow>
          (case bdim (ncols X) (ncols Y) of
             Inl e \<Rightarrow> Inl e
           | Inr c \<Rightarrow> Inr (Matrix r c (map2 (map2 f) (broadcast_to r c X) (broadcast_to r c Y)))))"

definition msub :: "'a::minus matrix \<Rightarrow> 'a matrix \<Rightarrow> error + 'a matrix" where
  "msub X Y = ewise (-) X Y"

definition madd :: "'a::plus matrix \<Rightarrow> 'a matrix \<Rightarrow> error + 'a matrix" where
  "madd X Y = ewise (+) X Y"

text \<open>
  The matrix product \<^verbatim>\<open>X @ Y\<close> of two-dimensional arrays; it raises when the number of
  columns of \<open>X\<close> is not the number of rows of \<open>Y\<close>.
\<close>

definition matmul :: "'a::semiring_0 matrix \<Rightarrow> 'a matrix \<Rightarrow> error + 'a matrix" where
  "matmul X Y =
     (if ncols X \<noteq> nrows Y then Inl DimensionError
      else Inr (Matrix (nrows X) (ncols Y)
                  (map (\<lambda>r. map (\<lambda>j. sum_list (map2 (*) r (map (\<lambda>yr. yr ! j) (elems Y))))
                                 [0..<ncols Y])
                       (elems X))))"

text \<open>
  \<^verbatim>\<open>scipy.linalg.inv(M)\<close> rejects a non-square argument, factorises \<open>M\<close> and raises
  \<^verbatim>\<open>LinAlgError\<close> when the factorisation meets a zero pivot, that is when \<open>M\<close> is singular.
  In exact arithmetic the result is the inverse, written here with cofactors: \<open>det_n k\<close> is
  the determinant of a \<open>k \<times> k\<close> matrix expanded along its first row, \<open>minor i j\<close> deletes row
  \<open>i\<close> and column \<open>j\<close>.
\<close>

definition del_at :: "nat \<Rightarrow> 'b list \<Rightarrow> 'b list" where
  "del_at k xs = take k xs @ drop (Suc k) xs"

definition minor :: "nat \<Rightarrow> nat \<Rightarrow> 'a list list \<Rightarrow> 'a list list" where
  "minor i j rs = map (del_at j) (del_at i rs)"

primrec det_n :: "nat \<Rightarrow> 'a::field list list \<Rightarrow> 'a" where
  "det_n 0 rs = 1"
| "det_n (Suc k) rs =
     sum_list (map (\<lambda>j. (- 1) ^ j * (rs ! 0 ! j) * det_n k (minor 0 j rs)) [0..<Suc k])"

definition la_inv :: "'a::field matrix \<Rightarrow> error + 'a matrix" where
  "la_inv M =
     (if nrows M \<noteq> ncols M then Inl DimensionError
      else let n = nrows M; d = det_n n (elems M)
           in if d = 0 then Inl LinAlgError
              else Inr (Matrix n n
                          (map (\<lambda>i. map (\<lambda>j. (- 1) ^ (i + j) * det_n (n - 1) (minor j i (elems M)) / d)
                                         [0..<n])
                               [0..<n])))"

subsection \<open>State-space frequency response (modern\_contoller.py)\<close>

text \<open>
  The script evaluates \<^verbatim>\<open>G = C @ la.inv(1j*wi*np.eye(4) - A) @ B + D\<close> for every \<open>wi\<close> of the
  grid; the identity is fixed at four states. \<open>sI_minus_A\<close> is the argument of \<^verbatim>\<open>la.inv\<close>.
\<close>

definition sI_minus_A :: "real matrix \<Rightarrow> real \<Rightarrow> error + complex matrix" where
  "sI_minus_A A wi = msub (smul (\<i> * complex_of_real wi) (eye 4)) (cmat A)"

text \<open>
  \<open>G_at\<close> is the expression for one \<open>wi\<close>, evaluated in Python's order: the argument of
  \<^verbatim>\<open>la.inv\<close>, the call of \<^verbatim>\<open>la.inv\<close>, the product with \<open>C\<close> on the left, the product with \<open>B\<close>
  on the right, the sum with \<open>D\<close>. The first component of the result counts the calls of
  \<^verbatim>\<open>la.inv\<close> made (0 or 1), the second is the exception raised or the matrix \<open>G\<close>.
\<close>

definition G_at ::
  "real matrix \<Rightarrow> real matrix \<Rightarrow> real matrix \<Rightarrow> real matrix \<Rightarrow> real
   \<Rightarrow> nat \<times> (error + complex matrix)" where
  "G_at A B C D wi =
     (case sI_minus_A A wi of
        Inl e \<Rightarrow> (0, Inl e)
      | Inr M \<Rightarrow>
          (case la_inv M of
             Inl e \<Rightarrow> (1, Inl e)
           | Inr Mi \<Rightarrow>
               (case matmul (cmat C) Mi of
                  Inl e \<Rightarrow> (1, Inl e)
                | Inr CM \<Rightarrow>
                    (case matmul CM (cmat B) of
                       Inl e \<Rightarrow> (1, Inl e)
                     | Inr CMB \<Rightarrow> (1, madd CMB (cmat D))))))"

text \<open>
  The loop of the script over the grid:
  \<^verbatim>\<open>for wi in w: G = ...; H11.append(G[0,0]); H21.append(G[1,0])\<close>, started with
  \<^verbatim>\<open>H11, H21 = [], []\<close>. The state is the number of calls of \<^verbatim>\<open>la.inv\<close> made so far and the
  two lists; an exception ends the loop and nothing is returned.
\<close>

fun frequency_loop ::
  "real matrix \<Rightarrow> real matrix \<Rightarrow> real matrix \<Rightarrow> real matrix \<Rightarrow> real list
   \<Rightarrow> nat \<Rightarrow> complex list \<Rightarrow> complex list \<Rightarrow> nat \<times> (error + complex list \<times> complex list)" where
  "frequency_loop A B C D [] calls H11 H21 = (calls, Inr (H11, H21))"
| "frequency_loop A B C D (wi # w) calls H11 H21 =
     (case G_at A B C D wi of
        (k, Inl e) \<Rightarrow> (calls + k, Inl e)
      | (k, Inr G) \<Rightarrow>
          (case getitem G 0 0 of
             Inl e \<Rightarrow> (calls + k, Inl e)
           | Inr g00 \<Rightarrow>
               (case getitem G 1 0 of
                  Inl e \<Rightarrow> (calls + k, Inl e)
                | Inr g10 \<Rightarrow> frequency_loop A B C D w (calls + k) (H11 @ [g00]) (H21 @ [g10]))))"

definition frequency_response ::
  "real matrix \<Rightarrow> real matrix \<Rightarrow> real matrix \<Rightarrow> real matrix \<Rightarrow> real list
   \<Rightarrow> nat \<times> (error + complex list \<times> complex list)" where
  "frequency_response A B C D w = frequency_loop A B C D w 0 [] []"

text \<open>
  \<open>inv_returns A wi\<close>: the call \<^verbatim>\<open>la.inv(1j*wi*np.eye(4) - A)\<close> returns a matrix.
\<close>

definition inv_returns :: "real matrix \<Rightarrow> real \<Rightarrow> bool" where
  "inv_returns A wi =
     (case sI_minus_A A wi of
        Inl e \<Rightarrow> False
      | Inr M \<Rightarrow> (case la_inv M of Inl e \<Rightarrow> False | Inr Mi \<Rightarrow> True))"

text \<open>
  The closed-loop output matrix \<^verbatim>\<open>Ccl = C - D @ K @ C1\<close>.
\<close>

definition Ccl :: "real matrix \<Rightarrow> real matrix \<Rightarrow> real matrix \<Rightarrow> real matrix \<Rightarrow> error + real matrix" where
  "Ccl C D K C1 =
     (case matmul D K of
        Inl e \<Rightarrow> Inl e
      | Inr DK \<Rightarrow> (case matmul DK C1 of Inl e \<Rightarrow> Inl e | Inr DKC \<Rightarrow> msub C DKC))"

subsection \<open>Well-formedness predicates\<close>


section \<open>Properties\<close>

subsection \<open>Transfer-function algebra\<close>





text \<open>
  Claim C2. Unity feedback around the open loop \<open>25 / (s\<^sup>2 + 3 s + 25)\<close> returns the
  numerator \<open>[25]\<close> and the denominator \<open>[1, 3, 50]\<close>; in general the numerator is returned
  unchanged and the denominator is the right-aligned sum \<open>polyadd den num\<close>.
\<close>

theorem tf_feedback_concrete:
  "tf_feedback [25] [1, 3, 25] = ([25], [1, 3, 50])
   \<and> tf_feedback num den = (num, polyadd den num)"
  by (simp add: tf_feedback_def polyadd_def)



text \<open>
  A sequence with a leading zero is not a polynomial of the data model; \<open>np.polymul\<close>
  strips the zero.
\<close>

lemma tf_series_strips_leading_zero: "tf_series [0, 1] [1] [1] [1] = ([1], [1])"
  by (simp add: tf_series_def polymul_def poly1d_def trim_zeros_f_def convolve_def)

subsection \<open>Isolator models\<close>

lemma length_H_pend_single: "length (H_pend_single w f0 Q) = length w"
  by (simp add: H_pend_single_def Let_def)

lemma foldl_imul_same:
  "length acc = length S \<Longrightarrow>
   foldl (\<lambda>H (f0::real). imul H S) acc (replicate N f0) = map2 (\<lambda>a s. a * s ^ N) acc S"
proof (induction N arbitrary: acc)
  case 0
  then show ?case
    by (simp add: map2_map_map [where f = fst and g = snd, symmetric] map_fst_zip
             del: map2_map_map) (simp add: list_eq_iff_nth_eq)
next
  case (Suc N)
  have len: "length (imul acc S) = length S"
    using Suc.prems by (simp add: imul_def)
  have "foldl (\<lambda>H (f0::real). imul H S) acc (replicate (Suc N) f0)
        = foldl (\<lambda>H (f0::real). imul H S) (imul acc S) (replicate N f0)"
    by simp
  also have "\<dots> = map2 (\<lambda>a s. a * s ^ N) (imul acc S) S"
    using Suc.IH [OF len] .
  also have "\<dots> = map2 (\<lambda>a s. a * s ^ Suc N) acc S"
    using Suc.prems by (simp add: imul_def list_eq_iff_nth_eq mult.assoc)
  finally show ?case .
qed

lemma map2_ones_power:
  "map2 (\<lambda>a s. a * s ^ N) (replicate (length S) (1::complex)) S = map (\<lambda>s. s ^ N) S"
  by (simp add: list_eq_iff_nth_eq)

text \<open>
  Claim C5. Cascading \<open>N\<close> horizontal-pendulum stages of the same resonance gives, at each
  grid point, the \<open>N\<close>-th power of the single-stage response, and so the \<open>N\<close>-th power of
  its magnitude.
\<close>

theorem H_pend_cascade_identical_stages:
  "H_pend_cascade w (replicate N f0) Q = map (\<lambda>h. h ^ N) (H_pend_single w f0 Q)
   \<and> map cmod (H_pend_cascade w (replicate N f0) Q)
       = map (\<lambda>h. cmod h ^ N) (H_pend_single w f0 Q)"
proof -
  let ?S = "H_pend_single w f0 Q"
  have len: "length (ones_like w) = length ?S"
    by (simp add: ones_like_def length_H_pend_single)
  have "H_pend_cascade w (replicate N f0) Q
        = foldl (\<lambda>H (f::real). imul H ?S) (ones_like w) (replicate N f0)"
    unfolding H_pend_cascade_def
    by (rule foldl_cong) auto
  also have "\<dots> = map2 (\<lambda>a s. a * s ^ N) (ones_like w) ?S"
    by (rule foldl_imul_same [OF len])
  also have "\<dots> = map (\<lambda>s. s ^ N) ?S"
    using map2_ones_power [of N ?S] by (simp add: ones_like_def length_H_pend_single)
  finally have eq: "H_pend_cascade w (replicate N f0) Q = map (\<lambda>h. h ^ N) ?S" .
  then show ?thesis
    by (simp add: norm_power)
qed

text \<open>
  Claim C6. With an empty list of resonances both cascade helpers return the all-ones
  sequence, one entry per grid point.
\<close>

theorem cascade_empty_list:
  "H_gas_cascade w [] M m phi gamma = replicate (length w) 1
   \<and> H_pend_cascade w [] Q = replicate (length w) 1"
  by (simp add: H_gas_cascade_def H_pend_cascade_def ones_like_def)

text \<open>
  Claim C10. The two inverted-pendulum variants are the same function of the grid, the
  resonance, the coupling coefficient and the loss angle.
\<close>

theorem H_ip_variants_equal:
  "H_ip_basic w f0 c phi = H_ip_countermass w f0 c phi"
  by (simp add: H_ip_basic_def H_ip_countermass_def)

subsection \<open>Bode data\<close>

lemma cumsum_from_zeros: "cumsum_from 0 (replicate n 0) = replicate n 0"
  by (induction n) auto

lemma diff_zeros: "diff (replicate n 0) = replicate (n - 1) 0"
  by (cases n) (simp_all add: diff_def list_eq_iff_nth_eq nth_Cons')

lemma unwrap_zeros: "unwrap (replicate n 0) = replicate n 0"
proof (cases n)
  case 0
  then show ?thesis by (simp add: unwrap_def)
next
  case (Suc k)
  have "map ph_correct (diff (replicate (Suc k) 0)) = replicate k 0"
    using diff_zeros [of "Suc k"] by (simp add: ph_correct_def)
  then have "unwrap (replicate (Suc k) 0) = 0 # map2 (+) (replicate k 0) (replicate k 0)"
    by (simp add: unwrap_def cumsum_def cumsum_from_zeros)
  also have "\<dots> = replicate (Suc k) 0"
    by (simp add: list_eq_iff_nth_eq)
  finally show ?thesis using Suc by simp
qed

lemma angle_one: "angle 1 = 0"
  by (simp add: angle_def arctan2_def)

text \<open>
  Claim C7. On a non-empty grid where the response \<open>num(jw) / den(jw)\<close> is 1 at every
  point, the magnitude in decibels and the phase in degrees are 0 at every point.
\<close>

theorem bode_unity_response:
  "w \<noteq> [] \<Longrightarrow> freqs num den w = replicate (length w) 1 \<Longrightarrow>
   bode_mag_phase num den w = (replicate (length w) 0, replicate (length w) 0)"
  by (simp add: bode_mag_phase_def angle_one unwrap_zeros)

theorem bode_unity_response_witness:
  "[1, 10 :: real] \<noteq> [] \<and> freqs [1] [1] [1, 10] = replicate (length [1, 10 :: real]) 1
   \<and> bode_mag_phase [1] [1] [1, 10] = (replicate (length [1, 10 :: real]) 0, replicate (length [1, 10 :: real]) 0)"
  using bode_unity_response [of "[1, 10]" "[1]" "[1]"]
  by (simp add: freqs_def polyval_def)

subsection \<open>High-frequency roll-off of the horizontal pendulum\<close>

text \<open>
  Claim C8. For \<open>f0 = 0.5\<close> Hz and \<open>Q = 50\<close>, at \<open>w = 1000 w0\<close> the magnitude of the
  horizontal-pendulum response is within 1 percent (relative) of \<open>(w0 / w)\<^sup>2\<close>.
\<close>

theorem H_pend_single_high_frequency:
  "(let f0 = 1 / 2; Q = 50;
        w0 = 2 * pi * f0;
        w = 1000 * w0;
        H = hd (H_pend_single [w] f0 Q)
    in \<bar>cmod H - (w0 / w) ^ 2\<bar> \<le> (1 / 100) * (w0 / w) ^ 2)"
proof -
  have pi2: "pi ^ 2 \<noteq> 0" by simp
  have den: "complex_of_real (pi ^ 2) - complex_of_real ((1000 * pi) ^ 2)
               + \<i> * complex_of_real (1000 * pi) * complex_of_real pi / complex_of_real 50
             = complex_of_real (pi ^ 2) * Complex (- 999999) 20"
    by (simp add: complex_eq_iff power2_eq_square)
  have "hd (H_pend_single [1000 * (2 * pi * (1 / 2))] (1 / 2) 50)
        = complex_of_real (pi ^ 2) / (complex_of_real (pi ^ 2) * Complex (- 999999) 20)"
    unfolding den [symmetric] by (simp add: H_pend_single_def)
  also have "\<dots> = 1 / Complex (- 999999) 20"
    using pi2 by simp
  finally have h: "hd (H_pend_single [1000 * (2 * pi * (1 / 2))] (1 / 2) 50) = 1 / Complex (- 999999) 20" .
  have lo: "999999 \<le> sqrt 999998000401"
    by (rule real_le_rsqrt) simp
  have hi: "sqrt 999998000401 \<le> 1000000"
    by (rule real_le_lsqrt) simp_all
  have c: "cmod (1 / Complex (- 999999) 20) = 1 / sqrt 999998000401"
    by (simp add: norm_divide complex_norm)
  have pos: "0 < sqrt 999998000401"
    by simp
  have b1: "1 / 1000000 \<le> 1 / sqrt 999998000401"
    using hi pos by (intro divide_left_mono) simp_all
  have b2: "1 / sqrt 999998000401 \<le> 1 / 999999"
    using lo by (intro divide_left_mono) simp_all
  have r: "((2 * pi * (1 / 2)) / (1000 * (2 * pi * (1 / 2)))) ^ 2 = 1 / 1000000"
    by (simp add: power2_eq_square)
  have close: "\<bar>x - 1 / 1000000\<bar> \<le> (1 / 100) * (1 / 1000000)"
    if "1 / 1000000 \<le> x" and "x \<le> 1 / 999999" for x :: real
    using that by simp
  show ?thesis
    unfolding Let_def h c r by (rule close [OF b1 b2])
qed

subsection \<open>State-space frequency response\<close>

lemma matmul_Inl: "matmul X Y = Inl e \<Longrightarrow> e = DimensionError"
  by (auto simp: matmul_def split: if_splits)

lemma matmul_Inr: "matmul X Y = Inr Z \<Longrightarrow> nrows Z = nrows X \<and> ncols Z = ncols Y"
  by (auto simp: matmul_def split: if_splits)

lemma la_inv_Inr: "la_inv M = Inr Mi \<Longrightarrow> nrows Mi = nrows M \<and> ncols Mi = nrows M"
  by (auto simp: la_inv_def Let_def split: if_splits)

lemma sI_minus_A_Inr: "sI_minus_A A wi = Inr M \<Longrightarrow> nrows M = 4 \<and> ncols M = 4"
  by (auto simp: sI_minus_A_def msub_def ewise_def bdim_def smul_def eye_def cmat_def
           split: if_splits)

lemma inv_returns_shape:
  assumes "inv_returns A wi"
  obtains M Mi where "sI_minus_A A wi = Inr M" and "la_inv M = Inr Mi"
    and "nrows Mi = 4" and "ncols Mi = 4"
proof -
  obtain M Mi where M: "sI_minus_A A wi = Inr M" and Mi: "la_inv M = Inr Mi"
    using assms by (auto simp: inv_returns_def split: sum.splits)
  have "nrows Mi = 4" "ncols Mi = 4"
    using la_inv_Inr [OF Mi] sI_minus_A_Inr [OF M] by simp_all
  with M Mi show ?thesis
    by (rule that)
qed


lemma G_at_B_rows_mismatch:
  assumes inv: "inv_returns A wi" and B: "nrows B \<noteq> 4"
  shows "G_at A B C D wi = (1, Inl DimensionError)"
proof -
  from inv obtain M Mi where M: "sI_minus_A A wi = Inr M" and Mi: "la_inv M = Inr Mi"
    and shape: "nrows Mi = 4" "ncols Mi = 4"
    by (rule inv_returns_shape)
  show ?thesis
  proof (cases "matmul (cmat C) Mi")
    case (Inl e)
    then show ?thesis
      using M Mi matmul_Inl [OF Inl] by (simp add: G_at_def)
  next
    case (Inr CM)
    have "ncols CM = 4"
      using matmul_Inr [OF Inr] shape by simp
    then have "matmul CM (cmat B) = Inl DimensionError"
      using B by (simp add: matmul_def cmat_def)
    then show ?thesis
      using M Mi Inr by (simp add: G_at_def)
  qed
qed









lemma inv_returns_zero4: "inv_returns (zeros 4 4) 1"
  by (simp add: inv_returns_def sI_minus_A_def msub_def ewise_def bdim_def zeros_def eye_def
      smul_def cmat_def la_inv_def broadcast_to_def stretch_def minor_def del_at_def
      numeral_eq_Suc upt_rec)

lemma G_at_singular_zero4:
  "G_at (zeros 4 4) B C D 0 = (1, Inl LinAlgError)"
  by (simp add: G_at_def sI_minus_A_def msub_def ewise_def bdim_def zeros_def eye_def
      smul_def cmat_def la_inv_def broadcast_to_def stretch_def minor_def del_at_def
      numeral_eq_Suc upt_rec)

text \<open>
  Claim C3 as stated fails. With a four-state \<open>A\<close> and a \<open>B\<close> of three rows the exception is
  raised by the product with \<open>B\<close>, after \<^verbatim>\<open>la.inv\<close> has been called for the first grid
  point; where \<open>jwI - A\<close> is singular at the first grid point the exception is
  \<open>LinAlgError\<close>; and on an empty grid nothing is raised.
\<close>

theorem frequency_response_inv_before_error_counterexample:
  "frequency_response (zeros 4 4) (zeros 3 1) (Matrix 2 4 [[1, 0, 0, 0], [0, 0, 1, 0]])
     (zeros 2 1) [1] = (1, Inl DimensionError)
   \<and> frequency_response (zeros 4 4) (zeros 3 1) (Matrix 2 4 [[1, 0, 0, 0], [0, 0, 1, 0]])
     (zeros 2 1) [0] = (1, Inl LinAlgError)
   \<and> frequency_response (zeros 4 4) (zeros 3 1) (Matrix 2 4 [[1, 0, 0, 0], [0, 0, 1, 0]])
     (zeros 2 1) [] = (0, Inr ([], []))"
proof -
  have "G_at (zeros 4 4) (zeros 3 1) (Matrix 2 4 [[1, 0, 0, 0], [0, 0, 1, 0]]) (zeros 2 1) 1
        = (1, Inl DimensionError)"
    by (rule G_at_B_rows_mismatch [OF inv_returns_zero4]) (simp add: zeros_def)
  then show ?thesis
    by (simp add: frequency_response_def G_at_singular_zero4)
qed

text \<open>
  Claim C3, amended. For a \<open>4 \<times> 4\<close> matrix \<open>A\<close> (the state count of the script), a matrix
  \<open>B\<close> whose row count differs from that of \<open>A\<close> and a non-empty grid at whose first point
  \<open>jwI - A\<close> is invertible, the loop raises \<open>DimensionError\<close> while the first grid point is
  evaluated, after the one call of \<^verbatim>\<open>la.inv\<close> for that point, and returns no values.
\<close>

theorem frequency_response_B_rows_mismatch:
  assumes "nrows A = 4" and "ncols A = 4" and "nrows B \<noteq> nrows A" and "inv_returns A wi"
  shows "frequency_response A B C D (wi # w) = (1, Inl DimensionError)"
  using G_at_B_rows_mismatch [of A wi B C D] assms
  by (simp add: frequency_response_def)

theorem frequency_response_B_rows_mismatch_witness:
  "nrows (zeros 4 4 :: real matrix) = 4 \<and> ncols (zeros 4 4 :: real matrix) = 4
   \<and> nrows (zeros 3 1 :: real matrix) \<noteq> nrows (zeros 4 4 :: real matrix)
   \<and> inv_returns (zeros 4 4) 1
   \<and> frequency_response (zeros 4 4) (zeros 3 1) (Matrix 2 4 [[1, 0, 0, 0], [0, 0, 1, 0]])
        (zeros 2 1) [1, 2] = (1, Inl DimensionError)"
  using frequency_response_B_rows_mismatch
          [of "zeros 4 4" "zeros 3 1" 1 "Matrix 2 4 [[1, 0, 0, 0], [0, 0, 1, 0]]" "zeros 2 1" "[2]"]
        inv_returns_zero4
  by (simp add: zeros_def)

subsection \<open>Closed-loop output matrix\<close>

lemma stretch_same_length: "length xs = n \<Longrightarrow> stretch n xs = xs"
  by (auto simp: stretch_def split: list.splits)

lemma broadcast_to_own_shape: "is_matrix M \<Longrightarrow> broadcast_to (nrows M) (ncols M) M = elems M"
proof -
  assume m: "is_matrix M"
  then have "map (stretch (ncols M)) (elems M) = elems M"
    by (intro map_idI) (auto simp: is_matrix_def list_all_iff stretch_same_length)
  then show ?thesis
    using m by (simp add: broadcast_to_def is_matrix_def stretch_same_length)
qed

lemma is_matrix_zeros: "is_matrix (zeros r c)"
  by (simp add: is_matrix_def zeros_def list_all_iff)

lemma map2_minus_zeros: "length xs = c \<Longrightarrow> map2 (-) xs (replicate c (0::real)) = xs"
  by (simp add: list_eq_iff_nth_eq)

lemma msub_zeros:
  assumes "is_matrix C"
  shows "msub C (zeros (nrows C) (ncols C)) = Inr (C :: real matrix)"
proof -
  have z: "broadcast_to (nrows C) (ncols C) (zeros (nrows C) (ncols C) :: real matrix)
           = replicate (nrows C) (replicate (ncols C) 0)"
    using broadcast_to_own_shape [OF is_matrix_zeros, of "nrows C" "ncols C"]
    by (simp add: zeros_def)
  have "map2 (map2 (-)) (elems C) (replicate (nrows C) (replicate (ncols C) (0::real))) = elems C"
    using assms by (simp add: list_eq_iff_nth_eq is_matrix_def list_all_length map2_minus_zeros)
  then show ?thesis
    using assms
    by (simp add: msub_def ewise_def bdim_def broadcast_to_own_shape z [unfolded zeros_def]
        zeros_def)
qed

lemma sum_list_zero_row: "sum_list (map2 (*) (replicate c (0::real)) ys) = 0"
proof (induction c arbitrary: ys)
  case 0
  then show ?case by simp
next
  case (Suc c)
  then show ?case by (cases ys) simp_all
qed

lemma matmul_zeros_left: "nrows Y = c \<Longrightarrow> matmul (zeros r c) Y = Inr (zeros r (ncols Y) :: real matrix)"
  by (simp add: matmul_def zeros_def sum_list_zero_row map_replicate_const)

text \<open>
  Claim C9. When \<open>D\<close> is the zero matrix, \<open>Ccl = C - D K C1\<close> is \<open>C\<close>, for every gain \<open>K\<close> and
  feedback selection \<open>C1\<close> of consistent dimensions: \<open>D\<close> has as many rows as \<open>C\<close> and as
  many columns as \<open>K\<close> has rows, \<open>C1\<close> has as many rows as \<open>K\<close> has columns and as many
  columns as \<open>C\<close>.
\<close>

theorem Ccl_zero_D:
  assumes "is_matrix C" and "nrows K = m" and "nrows C1 = ncols K" and "ncols C1 = ncols C"
  shows "Ccl C (zeros (nrows C) m) K C1 = Inr C"
  using assms by (simp add: Ccl_def matmul_zeros_left msub_zeros)

theorem Ccl_zero_D_witness:
  "is_matrix (Matrix 2 4 [[1, 0, 0, 0], [0, 0, 1, 0 :: real]])
   \<and> nrows (Matrix 1 1 [[150 :: real]]) = 1
   \<and> nrows (Matrix 1 4 [[1, 0, 0, 0 :: real]]) = ncols (Matrix 1 1 [[150 :: real]])
   \<and> ncols (Matrix 1 4 [[1, 0, 0, 0 :: real]]) = ncols (Matrix 2 4 [[1, 0, 0, 0], [0, 0, 1, 0 :: real]])
   \<and> Ccl (Matrix 2 4 [[1, 0, 0, 0], [0, 0, 1, 0]]) (zeros 2 1) (Matrix 1 1 [[150]])
         (Matrix 1 4 [[1, 0, 0, 0]])
       = Inr (Matrix 2 4 [[1, 0, 0, 0], [0, 0, 1, 0]])"
  using Ccl_zero_D [of "Matrix 2 4 [[1, 0, 0, 0], [0, 0, 1, 0]]" "Matrix 1 1 [[150]]" 1
                       "Matrix 1 4 [[1, 0, 0, 0]]"]
  by (simp add: is_matrix_def)

end
